theory Spec2Isabelle
  imports Complex_Main
begin

section \<open>A/B playback tool (ab_play.py): data model\<close>

text \<open>
  The transport state of \<^verbatim>\<open>ab_play.py\<close> is the dataclass \<^verbatim>\<open>PlaybackState\<close>.
  Python integers are unbounded, so \<open>active\<close> and \<open>pos\<close> are of type \<open>int\<close>. The lock
  field is not part of the data: every function below is the body of one
  \<^verbatim>\<open>with state.lock:\<close> block and is modelled as one atomic state transformer.
\<close>

record PlaybackState =
  active :: int
  paused :: bool
  pos :: int
  quit :: bool

definition initial_state :: PlaybackState where
  "initial_state = \<lparr>active = 0, paused = True, pos = 0, quit = False\<rparr>"

text \<open>
  The exceptions the modelled code can leave a function with: \<^verbatim>\<open>sys.exit(n)\<close>,
  \<^verbatim>\<open>sd.CallbackAbort\<close>, and the \<^verbatim>\<open>ValueError\<close> and \<^verbatim>\<open>IndexError\<close> of
  numpy and of list indexing.
\<close>

datatype error = SystemExit int | CallbackAbort | ValueError | IndexError

text \<open>
  A two-dimensional numpy array of shape \<open>(length (rows a), ncols a)\<close>: one row per
  frame, one column per channel. The column count is kept beside the rows because an
  array without rows still has a second dimension.
\<close>

record 'a array2 =
  ncols :: nat
  rows :: "'a list list"

definition len :: "'a array2 \<Rightarrow> nat" where
  "len a = length (rows a)"

section \<open>The control loop: key handling in run_ui\<close>

text \<open>
  Key codes as \<^verbatim>\<open>stdscr.getch()\<close> returns them: \<^verbatim>\<open>ord\<close> of the character, and the
  values of \<^verbatim>\<open>curses.KEY_LEFT\<close> and \<^verbatim>\<open>curses.KEY_RIGHT\<close> of the curses library.
\<close>

definition KEY_q :: int where "KEY_q = 113"
definition KEY_Q :: int where "KEY_Q = 81"
definition KEY_SPACE :: int where "KEY_SPACE = 32"
definition KEY_TAB :: int where "KEY_TAB = 9"
definition KEY_LEFT :: int where "KEY_LEFT = 260"
definition KEY_RIGHT :: int where "KEY_RIGHT = 261"
definition KEY_h :: int where "KEY_h = 104"
definition KEY_H :: int where "KEY_H = 72"
definition KEY_l :: int where "KEY_l = 108"
definition KEY_L :: int where "KEY_L = 76"

text \<open>
  The \<^verbatim>\<open>if/elif\<close> chain under the second \<^verbatim>\<open>with state.lock:\<close> of \<^verbatim>\<open>run_ui\<close>
  (lines 172 to 192), in the source's order. \<open>sr\<close> is the sample rate and
  \<open>total_frames\<close> is \<^verbatim>\<open>len(buffers[0])\<close>. A key none of the branches names changes
  nothing.
\<close>

definition handle_key :: "int \<Rightarrow> int \<Rightarrow> int \<Rightarrow> PlaybackState \<Rightarrow> PlaybackState" where
  "handle_key sr total_frames key state =
     (if key = KEY_q \<or> key = KEY_Q then state\<lparr>quit := True\<rparr>
      else if key = KEY_SPACE then state\<lparr>paused := \<not> paused state\<rparr>
      else if key = KEY_TAB then state\<lparr>active := 1 - active state\<rparr>
      else if key = KEY_LEFT then state\<lparr>pos := max 0 (pos state - sr)\<rparr>
      else if key = KEY_RIGHT then state\<lparr>pos := min (total_frames - 1) (pos state + sr)\<rparr>
      else if key = KEY_h \<or> key = KEY_H then state\<lparr>pos := max 0 (pos state - 5 * sr)\<rparr>
      else if key = KEY_l \<or> key = KEY_L then
        state\<lparr>pos := min (total_frames - 1) (pos state + 5 * sr)\<rparr>
      else state)"

text \<open>
  The \<^verbatim>\<open>while not state.quit:\<close> loop of \<^verbatim>\<open>run_ui\<close>, run on the list of values that
  successive \<^verbatim>\<open>getch()\<close> calls return. The value \<open>-1\<close> (no key within the timeout)
  skips the mutation (\<^verbatim>\<open>continue\<close>). Drawing the screen changes no state and is left
  out. The loop ends when \<open>quit\<close> is set; the list running out stands for the end of
  the observation.
\<close>

fun run_ui :: "int \<Rightarrow> int \<Rightarrow> int list \<Rightarrow> PlaybackState \<Rightarrow> PlaybackState" where
  "run_ui sr total_frames [] state = state"
| "run_ui sr total_frames (key # keys) state =
     (if quit state then state
      else if key = -1 then run_ui sr total_frames keys state
      else run_ui sr total_frames keys (handle_key sr total_frames key state))"

text \<open>The keys that seek: left, right, h, H, l, L.\<close>

definition seek_keys :: "int list" where
  "seek_keys = [KEY_LEFT, KEY_RIGHT, KEY_h, KEY_H, KEY_l, KEY_L]"

text \<open>
  The specification's reading of a seek, to compare \<open>handle_key\<close> with: its table
  gives \<open>position = clamp(position \<mp> sampleRate, 0, frameCount-1)\<close> for the seeks of one
  second and the same with \<open>5 * sampleRate\<close> for the seeks of five seconds.
  \<open>spec_clamp x lo hi\<close> is \<open>x\<close> inside \<open>[lo, hi]\<close> and the nearer bound outside it;
  \<open>spec_seek_offset\<close> is the signed distance each seek key asks for.
\<close>

definition spec_clamp :: "int \<Rightarrow> int \<Rightarrow> int \<Rightarrow> int" where
  "spec_clamp x lo hi = (if x < lo then lo else if hi < x then hi else x)"

definition spec_seek_offset :: "int \<Rightarrow> int \<Rightarrow> int" where
  "spec_seek_offset sr key =
     (if key = KEY_LEFT then - sr
      else if key = KEY_RIGHT then sr
      else if key = KEY_h \<or> key = KEY_H then - (5 * sr)
      else 5 * sr)"

section \<open>The numpy and list operations the code uses\<close>

text \<open>
  Python normalises a slice bound \<open>i\<close> against the length \<open>n\<close> of the sequence: a
  negative bound counts from the end and stops at \<open>0\<close>, a bound beyond the end stops
  at \<open>n\<close>.
\<close>

definition slice_bound :: "int \<Rightarrow> nat \<Rightarrow> nat" where
  "slice_bound i n = (if i < 0 then nat (max 0 (i + int n)) else min (nat i) n)"

text \<open>\<^verbatim>\<open>a[i:j]\<close> on the first axis: the rows from bound \<open>i\<close> up to bound \<open>j\<close>, none when
  the bounds cross. \<^verbatim>\<open>a[:j]\<close> is \<^verbatim>\<open>a[0:j]\<close>.\<close>

definition get_slice :: "'a array2 \<Rightarrow> int \<Rightarrow> int \<Rightarrow> 'a array2" where
  "get_slice a i j =
     (let lo = slice_bound i (len a); hi = slice_bound j (len a)
      in a\<lparr>rows := take (hi - lo) (drop lo (rows a))\<rparr>)"

text \<open>
  numpy broadcasts the assigned array to the shape \<open>(k, c)\<close> of the target: each of its
  two dimensions must be the target's or \<open>1\<close>, and a dimension of \<open>1\<close> is repeated.
  Any other shape raises \<^verbatim>\<open>ValueError\<close> (\<open>None\<close> here).
\<close>

definition broadcast_rows :: "nat \<Rightarrow> nat \<Rightarrow> 'a array2 \<Rightarrow> 'a list list option" where
  "broadcast_rows k c src =
     (if (len src = k \<or> len src = 1) \<and> (ncols src = c \<or> ncols src = 1) then
        Some (map (\<lambda>row. if ncols src = c then row else replicate c (hd row))
                (if len src = k then rows src else replicate k (hd (rows src))))
      else None)"

text \<open>\<^verbatim>\<open>outdata[:length] = src\<close>\<close>

definition assign_head :: "'a array2 \<Rightarrow> int \<Rightarrow> 'a array2 \<Rightarrow> error + 'a array2" where
  "assign_head outdata length' src =
     (let k = slice_bound length' (len outdata)
      in case broadcast_rows k (ncols outdata) src of
           None \<Rightarrow> Inl ValueError
         | Some new \<Rightarrow> Inr (outdata\<lparr>rows := new @ drop k (rows outdata)\<rparr>))"

text \<open>\<^verbatim>\<open>outdata[length:] = 0\<close>: a scalar broadcasts to any shape, so this never raises.\<close>

definition zero_from :: "'a::zero array2 \<Rightarrow> int \<Rightarrow> 'a array2" where
  "zero_from outdata length' =
     (let lo = slice_bound length' (len outdata)
      in outdata\<lparr>rows := take lo (rows outdata)
                          @ replicate (len outdata - lo) (replicate (ncols outdata) 0)\<rparr>)"

text \<open>\<^verbatim>\<open>outdata.fill(v)\<close>\<close>

definition fill :: "'a array2 \<Rightarrow> 'a \<Rightarrow> 'a array2" where
  "fill outdata v = outdata\<lparr>rows := replicate (len outdata) (replicate (ncols outdata) v)\<rparr>"

text \<open>\<^verbatim>\<open>xs[i]\<close> on a Python list: a negative index counts from the end, an index outside
  the list raises \<^verbatim>\<open>IndexError\<close>.\<close>

definition py_index :: "'a list \<Rightarrow> int \<Rightarrow> error + 'a" where
  "py_index xs i =
     (if 0 \<le> i \<and> i < int (length xs) then Inr (xs ! nat i)
      else if i < 0 \<and> - int (length xs) \<le> i then Inr (xs ! nat (int (length xs) + i))
      else Inl IndexError)"

section \<open>The render callback\<close>

text \<open>
  The function \<^verbatim>\<open>callback\<close> that \<^verbatim>\<open>make_callback(buffers, state, channels)\<close> returns
  (lines 92 to 113); \<^verbatim>\<open>channels\<close>, \<^verbatim>\<open>time_info\<close> and \<^verbatim>\<open>status\<close> are not used by its
  body. The source mutates \<^verbatim>\<open>outdata\<close> and \<^verbatim>\<open>state\<close> in place; the model returns both.
  Every \<^verbatim>\<open>raise\<close> happens before the first mutation, so an error carries no state.
  \<open>end'\<close> and \<open>length'\<close> are the source's \<^verbatim>\<open>end\<close> and \<^verbatim>\<open>length\<close>.
\<close>

definition callback ::
  "'a::zero array2 list \<Rightarrow> PlaybackState \<Rightarrow> 'a array2 \<Rightarrow> int
     \<Rightarrow> error + ('a array2 \<times> PlaybackState)" where
  "callback buffers state outdata frames =
     (if quit state then Inl CallbackAbort
      else if paused state then Inr (fill outdata 0, state)
      else
        case py_index buffers (active state) of
          Inl e \<Rightarrow> Inl e
        | Inr buf \<Rightarrow>
            let start = pos state;
                end' = min (start + frames) (int (len buf));
                length' = end' - start
            in case (if length' > 0 then
                       (case assign_head outdata length' (get_slice buf start end') of
                          Inl e \<Rightarrow> Inl e
                        | Inr out1 \<Rightarrow> Inr (out1, state\<lparr>pos := end'\<rparr>))
                     else Inr (outdata, state)) of
                 Inl e \<Rightarrow> Inl e
               | Inr (out1, state1) \<Rightarrow>
                   if length' < frames then
                     Inr (zero_from out1 length', state1\<lparr>paused := True, pos := 0\<rparr>)
                   else Inr (out1, state1))"

section \<open>Loading the two files\<close>

text \<open>
  What \<^verbatim>\<open>sf.read\<close> returns for the samples: a one-dimensional array for a mono file,
  a two-dimensional one (frames by channels) otherwise.
\<close>

datatype 'a ndarray = Array1 "'a list" | Array2 "'a array2"

text \<open>\<^verbatim>\<open>len(audio)\<close> of what was read.\<close>

fun len_nd :: "'a ndarray \<Rightarrow> nat" where
  "len_nd (Array1 xs) = length xs"
| "len_nd (Array2 a) = len a"

text \<open>\<^verbatim>\<open>if audio.ndim == 1: audio = audio.reshape(-1, 1)\<close>\<close>

fun ensure_2d :: "'a ndarray \<Rightarrow> 'a array2" where
  "ensure_2d (Array1 xs) = \<lparr>ncols = 1, rows = map (\<lambda>x. [x]) xs\<rparr>"
| "ensure_2d (Array2 a) = a"

text \<open>
  \<^verbatim>\<open>normalize_peak\<close> (lines 41 to 46). \<^verbatim>\<open>np.abs(audio).max()\<close> raises
  \<^verbatim>\<open>ValueError\<close> on an array without elements. Samples are elements of an ordered
  field: the rounding of \<^verbatim>\<open>float32\<close> arithmetic, infinities and NaN are not modelled,
  only the control flow of the function and the exact value of its formula.
\<close>

definition normalize_peak :: "'a::linordered_field array2 \<Rightarrow> 'a \<Rightarrow> error + 'a array2" where
  "normalize_peak audio target =
     (case concat (rows audio) of
        [] \<Rightarrow> Inl ValueError
      | x # xs \<Rightarrow>
          let peak = fold max (map abs xs) (abs x)
          in if peak > 0 then
               Inr (audio\<lparr>rows := map (map (\<lambda>s. s * (target / peak))) (rows audio)\<rparr>)
             else Inr audio)"

text \<open>
  \<^verbatim>\<open>load_wavs\<close> (lines 49 to 87). The file system maps a path that exists to what
  \<^verbatim>\<open>sf.read\<close> returns for it, the samples and the sample rate; a path that does not
  exist is not in the map. \<^verbatim>\<open>sys.exit(1)\<close> is the error \<open>SystemExit 1\<close>; an exception
  of \<^verbatim>\<open>normalize_peak\<close> is not caught and leaves \<^verbatim>\<open>load_wavs\<close> as it is. The default
  \<^verbatim>\<open>target\<close> of \<^verbatim>\<open>normalize_peak\<close> is \<open>0.95\<close>.
\<close>

definition load_wavs ::
  "(string \<rightharpoonup> 'a::linordered_field ndarray \<times> int) \<Rightarrow> string \<Rightarrow> string \<Rightarrow> bool
     \<Rightarrow> error + ('a array2 \<times> 'a array2 \<times> int)" where
  "load_wavs fs path_a path_b do_normalize =
     (case fs path_a of
        None \<Rightarrow> Inl (SystemExit 1)
      | Some (raw_a, sr_a) \<Rightarrow>
     (case fs path_b of
        None \<Rightarrow> Inl (SystemExit 1)
      | Some (raw_b, sr_b) \<Rightarrow>
          if sr_a \<noteq> sr_b then Inl (SystemExit 1)
          else
            let audio_a = ensure_2d raw_a; audio_b = ensure_2d raw_b
            in if ncols audio_a \<noteq> ncols audio_b then Inl (SystemExit 1)
               else
                 let min_len = min (len audio_a) (len audio_b);
                     audio_a = get_slice audio_a 0 (int min_len);
                     audio_b = get_slice audio_b 0 (int min_len)
                 in if do_normalize then
                      (case normalize_peak audio_a (95 / 100) of
                         Inl e \<Rightarrow> Inl e
                       | Inr norm_a \<Rightarrow>
                           (case normalize_peak audio_b (95 / 100) of
                              Inl e \<Rightarrow> Inl e
                            | Inr norm_b \<Rightarrow> Inr (norm_a, norm_b, sr_a)))
                    else Inr (audio_a, audio_b, sr_a)))"

section \<open>The position invariant of the transport state\<close>

text \<open>The invariant the specification gives for \<open>TransportState\<close>: \<open>0 \<le> pos \<le> frameCount\<close>.\<close>

definition position_ok :: "nat \<Rightarrow> PlaybackState \<Rightarrow> bool" where
  "position_ok frameCount state = (0 \<le> pos state \<and> pos state \<le> int frameCount)"

section \<open>Properties of the control loop\<close>

lemmas key_defs = KEY_q_def KEY_Q_def KEY_SPACE_def KEY_TAB_def KEY_LEFT_def KEY_RIGHT_def
  KEY_h_def KEY_H_def KEY_l_def KEY_L_def

lemma run_ui_tabs:
  "\<not> quit state \<Longrightarrow>
   run_ui sr total_frames (replicate n KEY_TAB) state =
     state\<lparr>active := (if even n then active state else 1 - active state)\<rparr>"
proof (induction n arbitrary: state)
  case 0
  then show ?case by simp
next
  case (Suc n)
  have step: "handle_key sr total_frames KEY_TAB state = state\<lparr>active := 1 - active state\<rparr>"
    by (simp add: handle_key_def key_defs)
  have nq: "\<not> quit (state\<lparr>active := 1 - active state\<rparr>)"
    using Suc.prems by simp
  have no_timeout: "KEY_TAB \<noteq> -1"
    by (simp add: KEY_TAB_def)
  have "run_ui sr total_frames (replicate (Suc n) KEY_TAB) state =
        run_ui sr total_frames (replicate n KEY_TAB) (state\<lparr>active := 1 - active state\<rparr>)"
    using Suc.prems no_timeout by (simp add: step)
  also have "\<dots> = state\<lparr>active := (if even (Suc n) then active state else 1 - active state)\<rparr>"
    by (simp add: Suc.IH [OF nq])
  finally show ?case .
qed

text \<open>
  Claim C1. The A/B switch toggle (the TAB key) sets \<open>active\<close> to \<open>1 - active\<close> and
  leaves \<open>pos\<close> (and \<open>paused\<close> and \<open>quit\<close>) as they were, in every transport state;
  and after any number of toggles issued one after the other by the control loop the
  position is still the one before the first toggle.
\<close>

theorem toggle_preserves_position:
  "handle_key sr total_frames KEY_TAB state = state\<lparr>active := 1 - active state\<rparr>
   \<and> pos (handle_key sr total_frames KEY_TAB state) = pos state
   \<and> pos (run_ui sr total_frames (replicate n KEY_TAB) state) = pos state"
proof -
  have one: "handle_key sr total_frames KEY_TAB state = state\<lparr>active := 1 - active state\<rparr>"
    by (simp add: handle_key_def key_defs)
  have many: "pos (run_ui sr total_frames (replicate n KEY_TAB) state) = pos state"
  proof (cases "quit state")
    case True
    then show ?thesis by (cases n) simp_all
  next
    case False
    then show ?thesis by (simp add: run_ui_tabs)
  qed
  from one many show ?thesis by simp
qed

theorem toggle_preserves_position_witness:
  "handle_key 48000 48000 KEY_TAB \<lparr>active = 0, paused = False, pos = 24000, quit = False\<rparr>
     = \<lparr>active = 1, paused = False, pos = 24000, quit = False\<rparr>
   \<and> pos (run_ui 48000 48000 [KEY_TAB, KEY_TAB, KEY_TAB]
        \<lparr>active = 0, paused = False, pos = 24000, quit = False\<rparr>) = 24000"
  using toggle_preserves_position [of 48000 48000
      "\<lparr>active = 0, paused = False, pos = 24000, quit = False\<rparr>" 3]
  by (simp add: numeral_3_eq_3)

text \<open>
  Claim C3. With a sample rate that is not negative and a buffer pair of
  \<open>total_frames \<ge> 1\<close> frames, every seek key applied to a position in
  \<open>[0, total_frames - 1]\<close> changes only the position, and the new position is the
  target \<open>pos + offset\<close> clamped into \<open>[0, total_frames - 1]\<close>: the target itself when
  it is in the range, \<open>0\<close> when it is below \<open>0\<close>, \<open>total_frames - 1\<close> when it is beyond
  the end. So the new position is in \<open>[0, total_frames - 1]\<close>, a seek past either end
  lands on that end and never wraps around, and no seek raises.
\<close>

theorem seek_clamps:
  assumes "0 \<le> sr" and "0 \<le> pos state" and "pos state \<le> total_frames - 1"
    and "key \<in> set seek_keys"
  shows "handle_key sr total_frames key state =
           state\<lparr>pos := spec_clamp (pos state + spec_seek_offset sr key) 0 (total_frames - 1)\<rparr>
         \<and> 0 \<le> pos (handle_key sr total_frames key state)
         \<and> pos (handle_key sr total_frames key state) \<le> total_frames - 1"
proof -
  have dist: "KEY_LEFT \<noteq> KEY_RIGHT" "KEY_LEFT \<noteq> KEY_h" "KEY_LEFT \<noteq> KEY_H"
    "KEY_RIGHT \<noteq> KEY_h" "KEY_RIGHT \<noteq> KEY_H" "KEY_l \<noteq> KEY_LEFT" "KEY_L \<noteq> KEY_LEFT"
    "KEY_l \<noteq> KEY_RIGHT" "KEY_L \<noteq> KEY_RIGHT" "KEY_l \<noteq> KEY_h" "KEY_l \<noteq> KEY_H"
    "KEY_L \<noteq> KEY_h" "KEY_L \<noteq> KEY_H"
    by (simp_all add: key_defs)
  have eq: "handle_key sr total_frames key state =
      state\<lparr>pos := spec_clamp (pos state + spec_seek_offset sr key) 0 (total_frames - 1)\<rparr>"
  proof -
    consider "key = KEY_LEFT" | "key = KEY_RIGHT" | "key = KEY_h \<or> key = KEY_H"
      | "key = KEY_l \<or> key = KEY_L"
      using assms(4) by (auto simp: seek_keys_def)
    then show ?thesis
    proof cases
      case 1
      have "handle_key sr total_frames key state = state\<lparr>pos := max 0 (pos state - sr)\<rparr>"
        using 1 by (simp add: handle_key_def key_defs)
      moreover have "spec_clamp (pos state + spec_seek_offset sr key) 0 (total_frames - 1)
          = max 0 (pos state - sr)"
        using 1 assms(1-3) by (simp add: spec_clamp_def spec_seek_offset_def max_def)
      ultimately show ?thesis by simp
    next
      case 2
      have "handle_key sr total_frames key state =
          state\<lparr>pos := min (total_frames - 1) (pos state + sr)\<rparr>"
        using 2 by (simp add: handle_key_def key_defs)
      moreover have "spec_clamp (pos state + spec_seek_offset sr key) 0 (total_frames - 1)
          = min (total_frames - 1) (pos state + sr)"
        using 2 dist assms(1-3) by (simp add: spec_clamp_def spec_seek_offset_def min_def)
      ultimately show ?thesis by simp
    next
      case 3
      have "handle_key sr total_frames key state = state\<lparr>pos := max 0 (pos state - 5 * sr)\<rparr>"
        using 3 by (auto simp: handle_key_def key_defs)
      moreover have "spec_clamp (pos state + spec_seek_offset sr key) 0 (total_frames - 1)
          = max 0 (pos state - 5 * sr)"
        using 3 dist assms(1-3) by (auto simp: spec_clamp_def spec_seek_offset_def max_def)
      ultimately show ?thesis by simp
    next
      case 4
      have "handle_key sr total_frames key state =
          state\<lparr>pos := min (total_frames - 1) (pos state + 5 * sr)\<rparr>"
        using 4 by (auto simp: handle_key_def key_defs)
      moreover have "spec_clamp (pos state + spec_seek_offset sr key) 0 (total_frames - 1)
          = min (total_frames - 1) (pos state + 5 * sr)"
        using 4 dist assms(1-3) by (auto simp: spec_clamp_def spec_seek_offset_def min_def)
      ultimately show ?thesis by simp
    qed
  qed
  have range: "0 \<le> spec_clamp (pos state + spec_seek_offset sr key) 0 (total_frames - 1)"
    "spec_clamp (pos state + spec_seek_offset sr key) 0 (total_frames - 1) \<le> total_frames - 1"
    using assms(2,3) by (simp_all add: spec_clamp_def)
  show ?thesis
    using range by (simp add: eq)
qed

theorem seek_clamps_witness:
  "handle_key 48000 48000 KEY_RIGHT \<lparr>active = 0, paused = True, pos = 0, quit = False\<rparr>
     = \<lparr>active = 0, paused = True, pos = 47999, quit = False\<rparr>
   \<and> handle_key 48000 48000 KEY_h \<lparr>active = 0, paused = True, pos = 1000, quit = False\<rparr>
     = \<lparr>active = 0, paused = True, pos = 0, quit = False\<rparr>
   \<and> handle_key 48000 480000 KEY_RIGHT \<lparr>active = 0, paused = True, pos = 1000, quit = False\<rparr>
     = \<lparr>active = 0, paused = True, pos = 49000, quit = False\<rparr>"
proof -
  let ?s0 = "\<lparr>active = 0, paused = True, pos = 0, quit = False\<rparr>"
  let ?s1 = "\<lparr>active = 0, paused = True, pos = 1000, quit = False\<rparr>"
  have h0: "(0::int) \<le> 48000" "0 \<le> pos ?s0" "pos ?s0 \<le> 48000 - 1" "KEY_RIGHT \<in> set seek_keys"
    by (simp_all add: seek_keys_def)
  have h1: "(0::int) \<le> 48000" "0 \<le> pos ?s1" "pos ?s1 \<le> 48000 - 1" "KEY_h \<in> set seek_keys"
    by (simp_all add: seek_keys_def)
  have h2: "(0::int) \<le> 48000" "0 \<le> pos ?s1" "pos ?s1 \<le> 480000 - 1" "KEY_RIGHT \<in> set seek_keys"
    by (simp_all add: seek_keys_def)
  have off: "spec_seek_offset 48000 KEY_RIGHT = 48000" "spec_seek_offset 48000 KEY_h = - 240000"
    by (simp_all add: spec_seek_offset_def key_defs)
  from seek_clamps [OF h0] seek_clamps [OF h1] seek_clamps [OF h2] show ?thesis
    by (simp add: off spec_clamp_def)
qed

section \<open>Properties of the render callback\<close>

lemma slice_bound_nonneg: "0 \<le> i \<Longrightarrow> slice_bound i n = min (nat i) n"
  by (simp add: slice_bound_def)

lemma broadcast_rows_same:
  "len src = k \<Longrightarrow> ncols src = c \<Longrightarrow> broadcast_rows k c src = Some (rows src)"
  by (simp add: broadcast_rows_def)

lemma py_index_pair:
  "py_index [a, b] 0 = Inr a" "py_index [a, b] 1 = Inr b"
  by (simp_all add: py_index_def)

lemma callback_playing:
  fixes outdata :: "'a::zero array2"
  assumes nq: "\<not> quit state" and np: "\<not> paused state"
    and idx: "py_index buffers (active state) = Inr buf"
    and nc: "ncols buf = ncols outdata"
    and fr: "frames = int (len outdata)"
    and p0: "0 \<le> pos state" and pN: "pos state \<le> int (len buf)"
  shows "callback buffers state outdata frames =
           (let k = min (len outdata) (len buf - nat (pos state))
            in Inr (outdata\<lparr>rows := take k (drop (nat (pos state)) (rows buf))
                                      @ replicate (len outdata - k) (replicate (ncols outdata) 0)\<rparr>,
                    if k < len outdata then state\<lparr>paused := True, pos := 0\<rparr>
                    else state\<lparr>pos := pos state + int k\<rparr>))"
proof -
  define p where "p = nat (pos state)"
  define k where "k = min (len outdata) (len buf - p)"
  have pp: "pos state = int p" and pn: "p \<le> len buf"
    using p0 pN by (simp_all add: p_def)
  have kf: "k \<le> len outdata" and kn: "p + k \<le> len buf"
    using pn by (simp_all add: k_def)
  have endk: "min (int p + int (len outdata)) (int (len buf)) = int p + int k"
    using pn by (auto simp: k_def min_def)
  have natpk: "nat (int p + int k) = p + k"
    by linarith
  define src where "src = get_slice buf (int p) (int p + int k)"
  have src_rows: "rows src = take k (drop p (rows buf))"
    unfolding src_def get_slice_def Let_def
    using kn by (simp add: slice_bound_nonneg len_def natpk)
  have src_len: "len src = k"
    using kn by (simp add: src_rows len_def)
  have src_nc: "ncols src = ncols outdata"
    by (simp add: src_def get_slice_def Let_def nc)
  have sb: "slice_bound (int k) (len outdata) = k"
    using kf by (simp add: slice_bound_nonneg)
  have assign: "assign_head outdata (int k) src =
      Inr (outdata\<lparr>rows := take k (drop p (rows buf)) @ drop k (rows outdata)\<rparr>)"
    unfolding assign_head_def Let_def sb
    by (simp add: broadcast_rows_same [OF src_len src_nc] src_rows)
  have unfold: "callback buffers state outdata frames =
      (case (if 0 < k then
               (case assign_head outdata (int k) src of
                  Inl e \<Rightarrow> Inl e
                | Inr out1 \<Rightarrow> Inr (out1, state\<lparr>pos := int p + int k\<rparr>))
             else Inr (outdata, state)) of
         Inl e \<Rightarrow> Inl e
       | Inr (out1, state1) \<Rightarrow>
           if k < len outdata then
             Inr (zero_from out1 (int k), state1\<lparr>paused := True, pos := 0\<rparr>)
           else Inr (out1, state1))"
    apply (simp only: callback_def nq np if_False idx sum.case Let_def)
    apply (simp only: fr pp endk add_diff_cancel_left' of_nat_less_iff of_nat_0_less_iff
        src_def [symmetric])
    done
  show ?thesis
  proof (cases "k < len outdata")
    case True
    have zf: "zero_from (outdata\<lparr>rows := take k (drop p (rows buf)) @ drop k (rows outdata)\<rparr>) (int k)
        = outdata\<lparr>rows := take k (drop p (rows buf))
                             @ replicate (len outdata - k) (replicate (ncols outdata) 0)\<rparr>"
      using kn kf by (simp add: zero_from_def Let_def len_def slice_bound_nonneg)
    have zf0: "zero_from outdata 0
        = outdata\<lparr>rows := replicate (len outdata) (replicate (ncols outdata) 0)\<rparr>"
      by (simp add: zero_from_def Let_def slice_bound_nonneg)
    show ?thesis
      unfolding unfold Let_def p_def [symmetric] k_def [symmetric]
      using True by (cases "k = 0") (simp_all add: assign zf zf0)
  next
    case False
    then have kf': "k = len outdata" using kf by simp
    have f0: "k = 0 \<Longrightarrow> rows outdata = []"
      using kf' by (simp add: len_def)
    have all: "0 < k \<Longrightarrow> drop k (rows outdata) = []"
      using kf' by (simp add: len_def)
    have same: "k = 0 \<Longrightarrow> outdata\<lparr>rows := []\<rparr> = outdata"
      using f0 by simp
    show ?thesis
      unfolding unfold Let_def p_def [symmetric] k_def [symmetric]
      using False by (cases "k = 0") (simp_all add: assign all same pp)
  qed
qed


lemma callback_pair:
  fixes outdata :: "'a::zero array2"
  assumes nq: "\<not> quit state" and np: "\<not> paused state"
    and act: "active state \<in> {0, 1}"
    and la: "len buf_a = frameCount" and lb: "len buf_b = frameCount"
    and ca: "ncols buf_a = ncols outdata" and cb: "ncols buf_b = ncols outdata"
    and fr: "frames = int (len outdata)"
    and p0: "0 \<le> pos state" and pN: "pos state \<le> int frameCount"
  shows "callback [buf_a, buf_b] state outdata frames =
           (let buf = (if active state = 0 then buf_a else buf_b);
                k = min (len outdata) (frameCount - nat (pos state))
            in Inr (outdata\<lparr>rows := take k (drop (nat (pos state)) (rows buf))
                                      @ replicate (len outdata - k) (replicate (ncols outdata) 0)\<rparr>,
                    if k < len outdata then state\<lparr>paused := True, pos := 0\<rparr>
                    else state\<lparr>pos := pos state + int k\<rparr>))"
proof -
  define buf where "buf = (if active state = 0 then buf_a else buf_b)"
  have idx: "py_index [buf_a, buf_b] (active state) = Inr buf"
    using act by (auto simp: buf_def py_index_pair)
  have nc: "ncols buf = ncols outdata" and lenb: "len buf = frameCount"
    using ca cb la lb by (simp_all add: buf_def)
  have pN': "pos state \<le> int (len buf)"
    using pN lenb by simp
  show ?thesis
    using callback_playing [OF nq np idx nc fr p0 pN']
    by (simp add: lenb buf_def [symmetric])
qed

text \<open>
  Claim C2. When \<open>quit\<close> and \<open>paused\<close> are false, the position is in
  \<open>[0, frameCount]\<close> and \<open>pos + frames > frameCount\<close>, the callback returns without an
  error; the output block holds the \<open>frameCount - pos\<close> frames of the active buffer
  from \<open>pos\<close> on, followed by frames of zeros up to the end of the block; and the new
  state has \<open>paused = True\<close> and \<open>pos = 0\<close>, the other fields as before. The block has
  \<open>frames\<close> rows and the width of the buffers, as the audio device passes it.
\<close>

theorem render_end_of_buffer:
  fixes outdata :: "'a::zero array2"
  assumes "\<not> quit state" and "\<not> paused state"
    and "active state \<in> {0, 1}"
    and "len buf_a = frameCount" and "len buf_b = frameCount"
    and "ncols buf_a = ncols outdata" and "ncols buf_b = ncols outdata"
    and "frames = int (len outdata)"
    and "0 \<le> pos state" and "pos state \<le> int frameCount"
    and "pos state + frames > int frameCount"
  shows "callback [buf_a, buf_b] state outdata frames =
           Inr (outdata\<lparr>rows :=
                  drop (nat (pos state)) (rows (if active state = 0 then buf_a else buf_b))
                  @ replicate (len outdata - (frameCount - nat (pos state)))
                      (replicate (ncols outdata) 0)\<rparr>,
                state\<lparr>paused := True, pos := 0\<rparr>)
         \<and> length (drop (nat (pos state)) (rows (if active state = 0 then buf_a else buf_b)))
             = frameCount - nat (pos state)"
proof -
  have less: "frameCount - nat (pos state) < len outdata"
    using assms(8-11) by linarith
  have lens: "length (rows buf_a) = frameCount" "length (rows buf_b) = frameCount"
    using assms(4,5) by (simp_all add: len_def)
  show ?thesis
    using callback_pair [OF assms(1-10)] less lens
    by (simp add: Let_def min_def)
qed

theorem render_end_of_buffer_witness:
  "callback [\<lparr>ncols = 1, rows = [[1], [2], [3 :: real]]\<rparr>, \<lparr>ncols = 1, rows = [[11], [12], [13]]\<rparr>]
     \<lparr>active = 1, paused = False, pos = 2, quit = False\<rparr>
     \<lparr>ncols = 1, rows = [[7], [7], [7]]\<rparr> 3
   = Inr (\<lparr>ncols = 1, rows = [[13], [0], [0]]\<rparr>,
          \<lparr>active = 1, paused = True, pos = 0, quit = False\<rparr>)"
proof -
  let ?s = "\<lparr>active = 1, paused = False, pos = 2, quit = False\<rparr>"
  let ?a = "\<lparr>ncols = 1, rows = [[1], [2], [3 :: real]]\<rparr>"
  let ?b = "\<lparr>ncols = 1, rows = [[11], [12], [13 :: real]]\<rparr>"
  let ?out = "\<lparr>ncols = 1, rows = [[7], [7], [7 :: real]]\<rparr>"
  have h: "\<not> quit ?s" "\<not> paused ?s" "active ?s \<in> {0, 1}"
    "len ?a = 3" "len ?b = 3" "ncols ?a = ncols ?out" "ncols ?b = ncols ?out"
    "(3::int) = int (len ?out)" "0 \<le> pos ?s" "pos ?s \<le> int 3" "pos ?s + 3 > int 3"
    by (simp_all add: len_def)
  have n: "nat 2 = Suc (Suc 0)" "(3::nat) - Suc (Suc 0) = Suc 0"
    by simp_all
  from render_end_of_buffer [OF h] show ?thesis
    by (simp add: len_def n)
qed

text \<open>
  Claim C7. When \<open>quit\<close> is false and \<open>paused\<close> is true, the callback fills the whole
  output block of \<open>frames\<close> frames with zeros and returns the transport state as it
  was.
\<close>

theorem render_paused_silence:
  assumes "\<not> quit state" and "paused state" and "frames = int (len outdata)"
  shows "callback buffers state outdata frames =
           Inr (outdata\<lparr>rows := replicate (nat frames) (replicate (ncols outdata) 0)\<rparr>, state)"
  using assms by (simp add: callback_def fill_def)

theorem render_paused_silence_witness:
  "callback [\<lparr>ncols = 1, rows = [[1], [2], [3 :: real]]\<rparr>, \<lparr>ncols = 1, rows = [[11], [12], [13]]\<rparr>]
     \<lparr>active = 1, paused = True, pos = 2, quit = False\<rparr>
     \<lparr>ncols = 1, rows = [[7], [7]]\<rparr> 2
   = Inr (\<lparr>ncols = 1, rows = [[0], [0]]\<rparr>,
          \<lparr>active = 1, paused = True, pos = 2, quit = False\<rparr>)"
proof -
  let ?s = "\<lparr>active = 1, paused = True, pos = 2, quit = False\<rparr>"
  let ?out = "\<lparr>ncols = 1, rows = [[7], [7 :: real]]\<rparr>"
  have h: "\<not> quit ?s" "paused ?s" "(2::int) = int (len ?out)"
    by (simp_all add: len_def)
  have n: "nat 2 = Suc (Suc 0)"
    by simp
  from render_paused_silence [OF h] show ?thesis
    by (simp add: n numeral_2_eq_2)
qed

text \<open>
  Claim C9. When \<open>quit\<close> and \<open>paused\<close> are false and \<open>frameCount - pos\<close> is exactly
  \<open>frames\<close>, the callback copies all the remaining frames of the active buffer and
  sets \<open>pos = frameCount\<close>; \<open>paused\<close> stays false and the position is not reset. The
  callback that follows, on a block that is not empty, writes only zeros, sets
  \<open>paused\<close> and resets \<open>pos\<close> to \<open>0\<close>.
\<close>

theorem render_exact_fit:
  fixes outdata outdata2 :: "'a::zero array2"
  assumes "\<not> quit state" and "\<not> paused state"
    and "active state \<in> {0, 1}"
    and "len buf_a = frameCount" and "len buf_b = frameCount"
    and "ncols buf_a = ncols outdata" and "ncols buf_b = ncols outdata"
    and "frames = int (len outdata)"
    and "0 \<le> pos state" and "int frameCount - pos state = frames"
    and "ncols outdata2 = ncols outdata" and "frames2 = int (len outdata2)" and "0 < frames2"
  shows "callback [buf_a, buf_b] state outdata frames =
           Inr (outdata\<lparr>rows :=
                  drop (nat (pos state)) (rows (if active state = 0 then buf_a else buf_b))\<rparr>,
                state\<lparr>pos := int frameCount\<rparr>)
         \<and> callback [buf_a, buf_b] (state\<lparr>pos := int frameCount\<rparr>) outdata2 frames2 =
           Inr (outdata2\<lparr>rows := replicate (nat frames2) (replicate (ncols outdata2) 0)\<rparr>,
                state\<lparr>paused := True, pos := 0\<rparr>)"
proof -
  have pN: "pos state \<le> int frameCount"
    using assms(8,10) by linarith
  have k: "min (len outdata) (frameCount - nat (pos state)) = len outdata"
    using assms(8-10) by linarith
  have lens: "length (rows buf_a) = frameCount" "length (rows buf_b) = frameCount"
    using assms(4,5) by (simp_all add: len_def)
  have fit: "nat (pos state) + len outdata = frameCount"
    using assms(8-10) by linarith
  have posN: "pos state + int (len outdata) = int frameCount"
    using assms(8-10) by linarith
  have first: "callback [buf_a, buf_b] state outdata frames =
           Inr (outdata\<lparr>rows :=
                  drop (nat (pos state)) (rows (if active state = 0 then buf_a else buf_b))\<rparr>,
                state\<lparr>pos := int frameCount\<rparr>)"
    using callback_pair [OF assms(1-9) pN] lens fit
    by (simp add: Let_def k posN)
  let ?s1 = "state\<lparr>pos := int frameCount\<rparr>"
  have second: "callback [buf_a, buf_b] ?s1 outdata2 frames2 =
           Inr (outdata2\<lparr>rows := replicate (nat frames2) (replicate (ncols outdata2) 0)\<rparr>,
                state\<lparr>paused := True, pos := 0\<rparr>)"
    using callback_pair [of ?s1 buf_a frameCount buf_b outdata2 frames2] assms
    by (simp add: Let_def)
  from first second show ?thesis by simp
qed

theorem render_exact_fit_witness:
  "callback [\<lparr>ncols = 1, rows = [[1], [2], [3 :: real]]\<rparr>, \<lparr>ncols = 1, rows = [[11], [12], [13]]\<rparr>]
     \<lparr>active = 0, paused = False, pos = 1, quit = False\<rparr>
     \<lparr>ncols = 1, rows = [[7], [7]]\<rparr> 2
   = Inr (\<lparr>ncols = 1, rows = [[2], [3]]\<rparr>,
          \<lparr>active = 0, paused = False, pos = 3, quit = False\<rparr>)
   \<and> callback [\<lparr>ncols = 1, rows = [[1], [2], [3 :: real]]\<rparr>, \<lparr>ncols = 1, rows = [[11], [12], [13]]\<rparr>]
     \<lparr>active = 0, paused = False, pos = 3, quit = False\<rparr>
     \<lparr>ncols = 1, rows = [[8], [8]]\<rparr> 2
   = Inr (\<lparr>ncols = 1, rows = [[0], [0]]\<rparr>,
          \<lparr>active = 0, paused = True, pos = 0, quit = False\<rparr>)"
proof -
  let ?s = "\<lparr>active = 0, paused = False, pos = 1, quit = False\<rparr>"
  let ?a = "\<lparr>ncols = 1, rows = [[1], [2], [3 :: real]]\<rparr>"
  let ?b = "\<lparr>ncols = 1, rows = [[11], [12], [13 :: real]]\<rparr>"
  let ?out = "\<lparr>ncols = 1, rows = [[7], [7 :: real]]\<rparr>"
  let ?out2 = "\<lparr>ncols = 1, rows = [[8], [8 :: real]]\<rparr>"
  have h: "\<not> quit ?s" "\<not> paused ?s" "active ?s \<in> {0, 1}"
    "len ?a = 3" "len ?b = 3" "ncols ?a = ncols ?out" "ncols ?b = ncols ?out"
    "(2::int) = int (len ?out)" "0 \<le> pos ?s" "int 3 - pos ?s = 2"
    "ncols ?out2 = ncols ?out" "(2::int) = int (len ?out2)" "(0::int) < 2"
    by (simp_all add: len_def)
  have n: "nat 2 = Suc (Suc 0)" "nat 1 = Suc 0"
    by simp_all
  from render_exact_fit [OF h] show ?thesis
    by (simp add: n numeral_2_eq_2)
qed

section \<open>The position invariant\<close>

lemma initial_position_ok: "position_ok frameCount initial_state"
  by (simp add: position_ok_def initial_state_def)

lemma handle_key_position_ok:
  assumes "0 \<le> sr" and "1 \<le> frameCount" and "position_ok frameCount state"
  shows "position_ok frameCount (handle_key sr (int frameCount) key state)"
  using assms by (auto simp: position_ok_def handle_key_def)

lemma callback_position_ok:
  fixes outdata :: "'a::zero array2"
  assumes "position_ok frameCount state"
    and "active state \<in> {0, 1}"
    and "len buf_a = frameCount" and "len buf_b = frameCount"
    and "ncols buf_a = ncols outdata" and "ncols buf_b = ncols outdata"
    and "frames = int (len outdata)"
    and "callback [buf_a, buf_b] state outdata frames = Inr (out', state')"
  shows "position_ok frameCount state'"
proof (cases "quit state \<or> paused state")
  case True
  then show ?thesis
    using assms(1,8) by (auto simp: callback_def split: if_splits)
next
  case False
  then have nq: "\<not> quit state" and np: "\<not> paused state" by simp_all
  have p0: "0 \<le> pos state" and pN: "pos state \<le> int frameCount"
    using assms(1) by (simp_all add: position_ok_def)
  show ?thesis
    using callback_pair [OF nq np assms(2-7) p0 pN] assms(8) p0 pN
    by (auto simp: Let_def position_ok_def split: if_splits)
qed

text \<open>
  Claim C4. The claim is that \<open>0 \<le> pos \<le> frameCount\<close> holds initially and after every
  operation, also for a buffer pair of no frames. The three lemmas above give this for
  every pair of at least one frame. For two buffers of no frames the clamp
  \<open>min (total_frames - 1) (pos + sr)\<close> of the seek forward is \<open>-1\<close>: the key
  \<open>KEY_RIGHT\<close> in the initial state leaves \<open>pos = -1\<close>, outside \<open>[0, 0]\<close>, and after
  the play key the callback raises \<^verbatim>\<open>ValueError\<close>, the slice \<^verbatim>\<open>buf[-1:0]\<close> having no
  row for the one row of \<^verbatim>\<open>outdata[:1]\<close>.
\<close>

theorem seek_right_on_empty_pair:
  "pos (handle_key 48000 0 KEY_RIGHT initial_state) = -1
   \<and> \<not> position_ok 0 (handle_key 48000 0 KEY_RIGHT initial_state)
   \<and> callback [\<lparr>ncols = 1, rows = []\<rparr>, \<lparr>ncols = 1, rows = []\<rparr>]
        (run_ui 48000 0 [KEY_RIGHT, KEY_SPACE] initial_state)
        \<lparr>ncols = 1, rows = [[0], [0::real]]\<rparr> 2 = Inl ValueError"
  by (simp add: handle_key_def key_defs initial_state_def position_ok_def callback_def
      py_index_def len_def get_slice_def slice_bound_def assign_head_def broadcast_rows_def)

section \<open>Properties of loading\<close>

lemma len_ensure_2d: "len (ensure_2d raw) = len_nd raw"
  by (cases raw) (simp_all add: len_def)

text \<open>
  Claim C5. For two files that exist and decode with the same sample rate and the same
  channel count, \<open>load_wavs\<close> without normalisation returns two buffers of exactly
  \<open>min (len a) (len b)\<close> frames each, and the frames of each buffer are the first
  frames of its input, unchanged.
\<close>

theorem load_wavs_truncates:
  fixes fs :: "string \<rightharpoonup> 'a::linordered_field ndarray \<times> int"
  assumes "fs path_a = Some (raw_a, sr)" and "fs path_b = Some (raw_b, sr)"
    and "ncols (ensure_2d raw_a) = ncols (ensure_2d raw_b)"
  shows "let m = min (len_nd raw_a) (len_nd raw_b);
             a = ensure_2d raw_a; b = ensure_2d raw_b
         in load_wavs fs path_a path_b False
              = Inr (a\<lparr>rows := take m (rows a)\<rparr>, b\<lparr>rows := take m (rows b)\<rparr>, sr)
            \<and> length (take m (rows a)) = m \<and> length (take m (rows b)) = m"
proof -
  have la: "length (rows (ensure_2d raw_a)) = len_nd raw_a"
    and lb: "length (rows (ensure_2d raw_b)) = len_nd raw_b"
    using len_ensure_2d [of raw_a] len_ensure_2d [of raw_b] by (simp_all add: len_def)
  show ?thesis
    using assms
    by (simp add: load_wavs_def Let_def get_slice_def slice_bound_def len_def la lb min_def)
qed

theorem load_wavs_truncates_witness:
  "load_wavs [''a.wav'' \<mapsto> (Array1 [1 / 2, - 1 / 4, 0 :: real], 48000),
              ''b.wav'' \<mapsto> (Array1 [1 / 8, 1], 48000)] ''a.wav'' ''b.wav'' False
   = Inr (\<lparr>ncols = 1, rows = [[1 / 2], [- 1 / 4]]\<rparr>, \<lparr>ncols = 1, rows = [[1 / 8], [1]]\<rparr>, 48000)"
proof -
  define fs where "fs = [''a.wav'' \<mapsto> (Array1 [1 / 2, - 1 / 4, 0 :: real], 48000 :: int),
              ''b.wav'' \<mapsto> (Array1 [1 / 8, 1], 48000)]"
  have h: "fs ''a.wav'' = Some (Array1 [1 / 2, - 1 / 4, 0], 48000)"
    "fs ''b.wav'' = Some (Array1 [1 / 8, 1], 48000)"
    "ncols (ensure_2d (Array1 [1 / 2, - 1 / 4, 0 :: real])) = ncols (ensure_2d (Array1 [1 / 8, 1 :: real]))"
    by (simp_all add: fs_def)
  from load_wavs_truncates [OF h]
  have "load_wavs fs ''a.wav'' ''b.wav'' False
   = Inr (\<lparr>ncols = 1, rows = [[1 / 2], [- 1 / 4]]\<rparr>, \<lparr>ncols = 1, rows = [[1 / 8], [1]]\<rparr>, 48000)"
    by (simp add: Let_def numeral_2_eq_2)
  then show ?thesis
    unfolding fs_def .
qed

lemma load_wavs_exit_iff:
  "load_wavs fs path_a path_b do_normalize = Inl (SystemExit 1) \<longleftrightarrow>
     fs path_a = None \<or> fs path_b = None
     \<or> snd (the (fs path_a)) \<noteq> snd (the (fs path_b))
     \<or> ncols (ensure_2d (fst (the (fs path_a)))) \<noteq> ncols (ensure_2d (fst (the (fs path_b))))"
  by (auto simp: load_wavs_def Let_def normalize_peak_def split: option.splits sum.splits list.splits)

text \<open>
  Claim C8. The claim is that \<open>load_wavs\<close> exits with code 1 exactly when a file is
  missing, the rates differ or the channel counts differ, and returns a buffer pair
  otherwise. The lemma above is the first half. The second half fails when
  normalisation is requested and a file has no frames: both files exist with the same
  rate and one channel, and \<^verbatim>\<open>np.abs(audio).max()\<close> raises \<^verbatim>\<open>ValueError\<close> on the
  truncated array of no elements, so no buffer pair is returned.
\<close>

theorem load_wavs_normalize_empty:
  "load_wavs [''a.wav'' \<mapsto> (Array1 [], 48000), ''b.wav'' \<mapsto> (Array1 [1 / 2 :: real], 48000)]
     ''a.wav'' ''b.wav'' True = Inl ValueError"
  by (simp add: load_wavs_def normalize_peak_def get_slice_def slice_bound_def len_def)

end
